theory Spec2Isabelle
  imports Main
begin

section \<open>The animation target resolver (class DefaultAnimBinder)\<close>

text \<open>
  A shallow embedding of \<^verbatim>\<open>DefaultAnimBinder\<close>. Every method becomes a function that takes
  the instance (the fields of \<^verbatim>\<open>this\<close>) and returns the value together with the updated
  instance; a method that can throw returns a sum, with the error on the left. JavaScript
  objects that are compared by identity (graph nodes, morph instances, animation targets)
  carry a number that stands for the object.

  The model covers an instance that was constructed with a graph; the constructor's early
  return for a missing graph leaves every other field unset and is outside the model. The
  source is an ECMAScript module, so its functions run in strict mode. A node named
  \<^verbatim>\<open>__proto__\<close> would replace the prototype of the name index instead of becoming an entry
  of it; the index keeps such a node as an entry here, and a property that depends on a
  lookup of a name that no node has excludes such a graph in its statement.
\<close>

subsection \<open>Plain objects used as dictionaries\<close>

text \<open>
  \<^verbatim>\<open>nodes\<close>, \<^verbatim>\<open>targetCache\<close>, \<^verbatim>\<open>visitedFallbackGraphPaths\<close>, \<^verbatim>\<open>nodeCounts\<close> and
  \<^verbatim>\<open>handlers\<close> are object literals, and a mask is a plain object. A read of a key that is
  no own property of such an object goes on to \<^verbatim>\<open>Object.prototype\<close>, whose members are
  the names below: functions, and for \<^verbatim>\<open>__proto__\<close> the prototype object itself.
\<close>

definition objectPrototypeNames :: "string list" where
  "objectPrototypeNames =
     [''constructor'', ''toString'', ''toLocaleString'', ''valueOf'', ''hasOwnProperty'',
      ''isPrototypeOf'', ''propertyIsEnumerable'', ''__proto__'', ''__defineGetter__'',
      ''__defineSetter__'', ''__lookupGetter__'', ''__lookupSetter__'']"

text \<open>
  The result of \<^verbatim>\<open>obj[key]\<close>: \<^verbatim>\<open>undefined\<close>, the member of \<^verbatim>\<open>Object.prototype\<close> of
  that name, or the own property.
\<close>

datatype 'a lookup = Undefined | Member string | Own 'a

definition plainGet :: "(string \<rightharpoonup> 'a) \<Rightarrow> string \<Rightarrow> 'a lookup" where
  "plainGet m k =
     (case m k of
        Some v \<Rightarrow> Own v
      | None \<Rightarrow> if k \<in> set objectPrototypeNames then Member k else Undefined)"

text \<open>
  \<^verbatim>\<open>obj[key] = v\<close> for a number \<^verbatim>\<open>v\<close>: the key becomes an own property, except
  \<^verbatim>\<open>__proto__\<close>, whose setter ignores a value that is no object.
\<close>

definition plainSet :: "(string \<rightharpoonup> 'a) \<Rightarrow> string \<Rightarrow> 'a \<Rightarrow> (string \<rightharpoonup> 'a)" where
  "plainSet m k v = (if k = ''__proto__'' then m else m(k \<mapsto> v))"

subsection \<open>Collaborators: scene graph, mesh instances, paths, targets\<close>

record morphInstance =
  morphId :: nat
  targetsLength :: nat

record meshInstance =
  miNodeName :: string
  miMorphInstance :: "morphInstance option"

text \<open>
  What \<^verbatim>\<open>findMeshInstances\<close> reads of an object while it walks up the parent chain: whether
  the object is an \<^verbatim>\<open>Entity\<close>, the \<^verbatim>\<open>meshInstances\<close> of its render and model components
  (the outer option is the component, the inner one its \<^verbatim>\<open>meshInstances\<close> property) and
  its parent.
\<close>

datatype object =
  Object (isEntity: bool)
         (render: "meshInstance list option option")
         (model: "meshInstance list option option")
         (parent: "object option")

datatype gnode =
  GraphNode (nid: nat) (name: string) (path: string) (asObject: object) (children: "gnode list")

text \<open>
  What the code holds in a variable named \<^verbatim>\<open>node\<close>: a graph node, or a member of
  \<^verbatim>\<open>Object.prototype\<close> that a lookup in the name index came upon.
\<close>

datatype nodeRef = GNode gnode | Inherited string

text \<open>\<^verbatim>\<open>node.path\<close>; a member of \<^verbatim>\<open>Object.prototype\<close> has no such property.\<close>

definition pathOf :: "nodeRef \<Rightarrow> string option" where
  "pathOf node = (case node of GNode n \<Rightarrow> Some (path n) | Inherited k \<Rightarrow> None)"

text \<open>A value used as a property key: \<^verbatim>\<open>undefined\<close> becomes the key "undefined".\<close>

definition keyOf :: "string option \<Rightarrow> string" where
  "keyOf v = (case v of None \<Rightarrow> ''undefined'' | Some k \<Rightarrow> k)"

record animPath =
  entityPath :: "string list"
  component :: string
  propertyPath :: string

text \<open>
  The closure handed to \<^verbatim>\<open>createAnimTarget\<close>, with the variables it captured. The
  transform closures capture \<^verbatim>\<open>node.localPosition\<close> and the like: the vector of a graph
  node, named by the node's number, or \<^verbatim>\<open>undefined\<close>.
\<close>

datatype targetFunc =
    SetLocalPosition "nat option"
  | SetLocalRotation "nat option"
  | SetLocalScale "nat option"
  | SetWeights "morphInstance list"
  | SetMaterialTexture meshInstance

record animTarget =
  tid :: nat
  func :: targetFunc
  targetType :: string
  valueCount :: nat
  targetPath :: string

text \<open>
  What a handler may return and the target cache may hold: an \<^verbatim>\<open>AnimTarget\<close>, or, when
  the handler is a member of \<^verbatim>\<open>Object.prototype\<close>, an object or a string.
\<close>

datatype jsval = Target animTarget | Obj nodeRef | Str string

definition truthy :: "jsval \<Rightarrow> bool" where
  "truthy v = (case v of Target t \<Rightarrow> True | Obj r \<Rightarrow> True | Str x \<Rightarrow> x \<noteq> [])"

record maskItem =
  maskValue :: "bool option"
  maskChildren :: "bool option"

text \<open>A JavaScript number as the reference counts use it: an integer or \<^verbatim>\<open>NaN\<close>.\<close>

datatype jsnum = Num int | NaN

datatype jsError = TypeError

record animBinder =
  debugBuild :: bool
  graph :: gnode
  mask_field :: "(string \<rightharpoonup> maskItem) option"
  nodes :: "string \<rightharpoonup> gnode"
  targetCache :: "string \<rightharpoonup> jsval"
  visitedFallbackGraphPaths :: "string \<rightharpoonup> int"
  nodeCounts :: "string \<rightharpoonup> jsnum"
  activeNodes :: "nodeRef list"
  warnings :: "string list"
  nextTargetId :: nat

subsection \<open>Strings and the path codec\<close>

text \<open>\<^verbatim>\<open>Array.prototype.join\<close>.\<close>

fun join :: "string \<Rightarrow> string list \<Rightarrow> string" where
  "join sep [] = []"
| "join sep [x] = x"
| "join sep (x # y # ys) = x @ sep @ join sep (y # ys)"

text \<open>\<^verbatim>\<open>path.entityPath[path.entityPath.length - 1] || ""\<close>.\<close>

definition lastSegment :: "string list \<Rightarrow> string" where
  "lastSegment ep = (if ep = [] then [] else last ep)"

text \<open>
  The first argument of \<^verbatim>\<open>AnimBinder.encode\<close> is an array of segments in \<^verbatim>\<open>resolve\<close>, a
  plain string in \<^verbatim>\<open>findNode\<close>, and \<^verbatim>\<open>node.path\<close> in \<^verbatim>\<open>createAnimTarget\<close>: a string,
  or \<^verbatim>\<open>undefined\<close>.
\<close>

datatype encodeArg = PathArr "string list" | PathStr string | PathUndefined

text \<open>
  Modelled from the spec: \<^verbatim>\<open>AnimBinder.encode\<close> (its class is not among the sources).
  Section 4.1: a pure function of entity path, component kind and property name, the segments
  joined by a separator, an empty segment list giving an empty leading segment. An entity
  path that is \<^verbatim>\<open>undefined\<close> is written out as a string concatenation writes it.
\<close>

definition encode :: "encodeArg \<Rightarrow> string \<Rightarrow> string \<Rightarrow> string" where
  "encode ep kind prop =
     (case ep of
        PathArr segs \<Rightarrow> join ''/'' segs
      | PathStr s \<Rightarrow> s
      | PathUndefined \<Rightarrow> ''undefined'') @ ''/'' @ kind @ ''/'' @ prop"

subsection \<open>The constructor\<close>

fun flatten :: "gnode \<Rightarrow> (string \<rightharpoonup> gnode) \<Rightarrow> (string \<rightharpoonup> gnode)" where
  "flatten (GraphNode i nm pth ob cs) m = fold flatten cs (m(nm \<mapsto> GraphNode i nm pth ob cs))"

definition DefaultAnimBinder :: "bool \<Rightarrow> gnode \<Rightarrow> animBinder" where
  "DefaultAnimBinder dbg g =
     \<lparr>debugBuild = dbg, graph = g, mask_field = None, nodes = flatten g Map.empty,
      targetCache = Map.empty, visitedFallbackGraphPaths = Map.empty,
      nodeCounts = Map.empty, activeNodes = [], warnings = [], nextTargetId = 0\<rparr>"

text \<open>The loop \<^verbatim>\<open>while (object && !(object instanceof Entity)) object = object.parent\<close>.\<close>

fun walkToEntity :: "object option \<Rightarrow> object option" where
  "walkToEntity None = None"
| "walkToEntity (Some (Object e r m p)) =
     (if e then Some (Object e r m p) else walkToEntity p)"

text \<open>
  A member of \<^verbatim>\<open>Object.prototype\<close> is no \<^verbatim>\<open>Entity\<close> and has no \<^verbatim>\<open>parent\<close>: the walk
  ends with \<^verbatim>\<open>undefined\<close> and no mesh instances are found.
\<close>

definition findMeshInstances :: "nodeRef \<Rightarrow> meshInstance list option" where
  "findMeshInstances node =
     (case node of
        Inherited k \<Rightarrow> None
      | GNode n \<Rightarrow>
          (case walkToEntity (Some (asObject n)) of
             None \<Rightarrow> None
           | Some ob \<Rightarrow>
               (case render ob of
                  Some r \<Rightarrow> r
                | None \<Rightarrow> (case model ob of Some m \<Rightarrow> m | None \<Rightarrow> None))))"

definition createAnimTarget ::
  "nat \<Rightarrow> targetFunc \<Rightarrow> string \<Rightarrow> nat \<Rightarrow> nodeRef \<Rightarrow> string \<Rightarrow> string option \<Rightarrow> animTarget" where
  "createAnimTarget oid f ty vc node prop componentType =
     \<lparr>tid = oid, func = f, targetType = ty, valueCount = vc,
      targetPath = encode (case pathOf node of Some s \<Rightarrow> PathStr s | None \<Rightarrow> PathUndefined)
        (case componentType of
           None \<Rightarrow> ''entity''
         | Some c \<Rightarrow> if c = [] then ''entity'' else c) prop\<rparr>"

text \<open>\<^verbatim>\<open>node.localPosition\<close> and the like, as the closures capture it.\<close>

definition vectorOf :: "nodeRef \<Rightarrow> nat option" where
  "vectorOf node = (case node of GNode n \<Rightarrow> Some (nid n) | Inherited k \<Rightarrow> None)"

definition localPositionHandler :: "nat \<Rightarrow> nodeRef \<Rightarrow> animTarget option" where
  "localPositionHandler oid node =
     Some (createAnimTarget oid (SetLocalPosition (vectorOf node)) ''vector'' 3 node
             ''localPosition'' None)"

definition localRotationHandler :: "nat \<Rightarrow> nodeRef \<Rightarrow> animTarget option" where
  "localRotationHandler oid node =
     Some (createAnimTarget oid (SetLocalRotation (vectorOf node)) ''quaternion'' 4 node
             ''localRotation'' None)"

definition localScaleHandler :: "nat \<Rightarrow> nodeRef \<Rightarrow> animTarget option" where
  "localScaleHandler oid node =
     Some (createAnimTarget oid (SetLocalScale (vectorOf node)) ''vector'' 3 node
             ''localScale'' None)"

text \<open>The loop of the weights handler that fills \<^verbatim>\<open>morphInstances\<close>.\<close>

fun collectMorphInstances :: "string \<Rightarrow> meshInstance list \<Rightarrow> morphInstance list" where
  "collectMorphInstances nm [] = []"
| "collectMorphInstances nm (mi # rest) =
     (if miNodeName mi = nm
      then (case miMorphInstance mi of
              Some mo \<Rightarrow> mo # collectMorphInstances nm rest
            | None \<Rightarrow> collectMorphInstances nm rest)
      else collectMorphInstances nm rest)"

text \<open>
  \<^verbatim>\<open>node.name\<close> in the two mesh handlers. It is read only after mesh instances were
  found, so only of a graph node.
\<close>

definition nameOf :: "nodeRef \<Rightarrow> string" where
  "nameOf node = (case node of GNode n \<Rightarrow> name n | Inherited k \<Rightarrow> k)"

definition weightsHandler :: "nat \<Rightarrow> nodeRef \<Rightarrow> animTarget option" where
  "weightsHandler oid node =
     (case findMeshInstances node of
        None \<Rightarrow> None
      | Some meshInstances \<Rightarrow>
          (case collectMorphInstances (nameOf node) meshInstances of
             [] \<Rightarrow> None
           | m0 # rest \<Rightarrow>
               Some (createAnimTarget oid (SetWeights (m0 # rest)) ''vector''
                       (targetsLength m0) node ''weights'' None)))"

definition materialTextureHandler :: "nat \<Rightarrow> nodeRef \<Rightarrow> animTarget option" where
  "materialTextureHandler oid node =
     (case findMeshInstances node of
        None \<Rightarrow> None
      | Some meshInstances \<Rightarrow>
          (case find (\<lambda>mi. miNodeName mi = nameOf node) meshInstances of
             None \<Rightarrow> None
           | Some meshInstance \<Rightarrow>
               Some (createAnimTarget oid (SetMaterialTexture meshInstance) ''vector'' 1 node
                       ''materialTexture'' (Some ''material''))))"

text \<open>
  A handler as \<^verbatim>\<open>resolve\<close> calls it: the five of the class return a target or
  \<^verbatim>\<open>null\<close> and do not throw.
\<close>

definition ownHandler ::
  "(nat \<Rightarrow> nodeRef \<Rightarrow> animTarget option) \<Rightarrow> nat \<Rightarrow> nodeRef \<Rightarrow> jsError + jsval option" where
  "ownHandler h oid node = Inr (map_option Target (h oid node))"

text \<open>
  A member of \<^verbatim>\<open>Object.prototype\<close> called as \<^verbatim>\<open>handler(node)\<close>, in strict mode with
  \<^verbatim>\<open>this\<close> undefined. \<^verbatim>\<open>constructor\<close> is \<^verbatim>\<open>Object\<close> and returns its argument, an
  object; \<^verbatim>\<open>toString\<close> returns the tag of \<^verbatim>\<open>undefined\<close>; \<^verbatim>\<open>__proto__\<close> is no function;
  every other member converts \<^verbatim>\<open>this\<close> to an object first. The last two throw a
  TypeError.
\<close>

definition memberHandler :: "string \<Rightarrow> nat \<Rightarrow> nodeRef \<Rightarrow> jsError + jsval option" where
  "memberHandler k oid node =
     (if k = ''constructor'' then Inr (Some (Obj node))
      else if k = ''toString'' then Inr (Some (Str ''[object Undefined]''))
      else Inl TypeError)"

text \<open>\<^verbatim>\<open>this.handlers[key]\<close>; every handler found is truthy.\<close>

definition ownHandlers :: "string \<rightharpoonup> (nat \<Rightarrow> nodeRef \<Rightarrow> animTarget option)" where
  "ownHandlers =
     [''localPosition'' \<mapsto> localPositionHandler,
      ''localRotation'' \<mapsto> localRotationHandler,
      ''localScale'' \<mapsto> localScaleHandler,
      ''weights'' \<mapsto> weightsHandler,
      ''materialTexture'' \<mapsto> materialTextureHandler]"

definition handlers :: "string \<Rightarrow> (nat \<Rightarrow> nodeRef \<Rightarrow> jsError + jsval option) option" where
  "handlers k =
     (case plainGet ownHandlers k of
        Own h \<Rightarrow> Some (ownHandler h)
      | Member x \<Rightarrow> Some (memberHandler x)
      | Undefined \<Rightarrow> None)"

text \<open>
  Modelled from the spec: \<^verbatim>\<open>MorphInstance.setWeight\<close> (the morph classes are not among the
  sources). Section 4.3: the weights target sets each morph weight by index. The weights of
  all morph instances are one store, keyed by morph instance and index.
\<close>

definition setWeight :: "morphInstance \<Rightarrow> nat \<Rightarrow> 'v \<Rightarrow> (nat \<times> nat \<rightharpoonup> 'v) \<Rightarrow> (nat \<times> nat \<rightharpoonup> 'v)" where
  "setWeight mo i v store = store((morphId mo, i) \<mapsto> v)"

text \<open>
  The closure of the weights handler: for every index \<^verbatim>\<open>i\<close> of the value, for every morph
  instance \<^verbatim>\<open>j\<close>, \<^verbatim>\<open>morphInstances[j].setWeight(i, value[i])\<close>. \<open>setWeightAll\<close> is the
  inner loop.
\<close>

definition setWeightAll ::
  "morphInstance list \<Rightarrow> nat \<Rightarrow> 'v \<Rightarrow> (nat \<times> nat \<rightharpoonup> 'v) \<Rightarrow> (nat \<times> nat \<rightharpoonup> 'v)" where
  "setWeightAll morphInstances i v store = fold (\<lambda>mo. setWeight mo i v) morphInstances store"

definition weightsFunc ::
  "morphInstance list \<Rightarrow> 'v list \<Rightarrow> (nat \<times> nat \<rightharpoonup> 'v) \<Rightarrow> (nat \<times> nat \<rightharpoonup> 'v)" where
  "weightsFunc morphInstances val store =
     fold (\<lambda>i. setWeightAll morphInstances i (val ! i)) [0 ..< length val] store"

subsection \<open>The mask evaluator\<close>

text \<open>
  \<^verbatim>\<open>this._mask[entityPath] && this._mask[entityPath]?.value !== false\<close>. A member of
  \<^verbatim>\<open>Object.prototype\<close> is truthy and has no \<^verbatim>\<open>value\<close>.
\<close>

definition exactEntryActive :: "maskItem lookup \<Rightarrow> bool" where
  "exactEntryActive it =
     (case it of
        Undefined \<Rightarrow> False
      | Member k \<Rightarrow> True
      | Own e \<Rightarrow> maskValue e \<noteq> Some False)"

text \<open>
  \<^verbatim>\<open>maskItem?.children\<close>, of the own entry at the key: a member of \<^verbatim>\<open>Object.prototype\<close>
  has no \<^verbatim>\<open>children\<close>, so without an own entry the test fails.
\<close>

definition childrenSet :: "maskItem option \<Rightarrow> bool" where
  "childrenSet it = (case it of None \<Rightarrow> False | Some e \<Rightarrow> maskChildren e = Some True)"

text \<open>
  The inner loop over the prefixes \<^verbatim>\<open>entityPathArr.slice(0, i + 1)\<close>, from index \<^verbatim>\<open>i\<close> on;
  the last argument is \<^verbatim>\<open>shouldAnimateNode\<close>.
\<close>

function prefixLoop :: "(string \<rightharpoonup> maskItem) \<Rightarrow> string list \<Rightarrow> nat \<Rightarrow> bool \<Rightarrow> bool" where
  "prefixLoop m arr i should =
     (if i < length arr
      then (if childrenSet (m (join ''/'' (take (i + 1) arr))) then True
            else prefixLoop m arr (i + 1) should)
      else should)"
  by pat_completeness auto
termination
  by (relation "measure (\<lambda>(m, arr, i, should). length arr - i)") auto

declare prefixLoop.simps [simp del]

text \<open>One round of the outer loop, for one candidate entity path.\<close>

definition candidateStep :: "(string \<rightharpoonup> maskItem) \<Rightarrow> string list \<Rightarrow> bool \<Rightarrow> bool" where
  "candidateStep m entityPathArr should =
     (if exactEntryActive (plainGet m (join ''/'' entityPathArr)) then True
      else prefixLoop m entityPathArr 0 should)"

definition firstSegment :: "string list \<Rightarrow> string option" where
  "firstSegment ep = (case ep of [] \<Rightarrow> None | x # xs \<Rightarrow> Some x)"

definition entityPathArrays :: "animBinder \<Rightarrow> animPath \<Rightarrow> string list list" where
  "entityPathArrays s p =
     (if Some (name (graph s)) \<noteq> firstSegment (entityPath p)
      then [entityPath p, name (graph s) # drop 1 (entityPath p)]
      else [entityPath p])"

definition isPathActive :: "animBinder \<Rightarrow> animPath \<Rightarrow> bool" where
  "isPathActive s p =
     (case mask_field s of
        None \<Rightarrow> True
      | Some m \<Rightarrow> fold (candidateStep m) (entityPathArrays s p) False)"

definition assignMask :: "animBinder \<Rightarrow> (string \<rightharpoonup> maskItem) option \<Rightarrow> animBinder" where
  "assignMask s m = s\<lparr>mask_field := m\<rparr>"

subsection \<open>The node resolver\<close>

text \<open>
  Modelled from the spec: \<^verbatim>\<open>GraphNode.findByPath\<close> (the scene graph is not among the
  sources). Section 4.2: starting at the bound graph root, follow the entity-path segments,
  each to the child of that name; absent as soon as a segment names no child.
\<close>

fun findByPath :: "gnode \<Rightarrow> string list \<Rightarrow> gnode option" where
  "findByPath n [] = Some n"
| "findByPath n (seg # rest) =
     (case find (\<lambda>c. name c = seg) (children n) of
        None \<Rightarrow> None
      | Some c \<Rightarrow> findByPath c rest)"

definition warningText :: "string \<Rightarrow> string \<Rightarrow> string" where
  "warningText fallbackGraphPath graphPath =
     ''Anim Binder: Multiple animation curves with the path '' @ fallbackGraphPath @
     '' are present in the '' @ graphPath @
     '' graph which may result in the incorrect binding of animations''"

text \<open>
  The block between \<^verbatim>\<open>#if _DEBUG\<close> and \<^verbatim>\<open>#endif\<close> of \<^verbatim>\<open>findNode\<close>. A value that is
  no number, \<^verbatim>\<open>undefined\<close> or a member of \<^verbatim>\<open>Object.prototype\<close>, is not finite and is
  replaced by 0.
\<close>

definition noteFallback :: "animBinder \<Rightarrow> string \<Rightarrow> animBinder" where
  "noteFallback s fallbackGraphPath =
     (let s1 = (if plainGet (visitedFallbackGraphPaths s) fallbackGraphPath = Own 1
                then s\<lparr>warnings := warnings s @ [warningText fallbackGraphPath (path (graph s))]\<rparr>
                else s)
      in (case plainGet (visitedFallbackGraphPaths s1) fallbackGraphPath of
            Own c \<Rightarrow> s1\<lparr>visitedFallbackGraphPaths :=
                         plainSet (visitedFallbackGraphPaths s1) fallbackGraphPath (c + 1)\<rparr>
          | Member k \<Rightarrow> s1\<lparr>visitedFallbackGraphPaths :=
                            plainSet (visitedFallbackGraphPaths s1) fallbackGraphPath 0\<rparr>
          | Undefined \<Rightarrow> s1\<lparr>visitedFallbackGraphPaths :=
                             plainSet (visitedFallbackGraphPaths s1) fallbackGraphPath 0\<rparr>))"

definition fallbackKey :: "animPath \<Rightarrow> string" where
  "fallbackKey p = encode (PathStr (lastSegment (entityPath p))) ''graph'' (propertyPath p)"

text \<open>\<^verbatim>\<open>this.nodes[key]\<close>, as a value for the variable \<^verbatim>\<open>node\<close>.\<close>

definition nodeLookup :: "(string \<rightharpoonup> gnode) \<Rightarrow> string \<Rightarrow> nodeRef option" where
  "nodeLookup m k =
     (case plainGet m k of
        Own n \<Rightarrow> Some (GNode n)
      | Member x \<Rightarrow> Some (Inherited x)
      | Undefined \<Rightarrow> None)"

definition findNode :: "animBinder \<Rightarrow> animPath \<Rightarrow> nodeRef option \<times> animBinder" where
  "findNode s p =
     (if \<not> isPathActive s p then (None, s)
      else (case findByPath (graph s) (entityPath p) of
              Some node \<Rightarrow> (Some (GNode node), s)
            | None \<Rightarrow>
                (nodeLookup (nodes s) (lastSegment (entityPath p)),
                 if debugBuild s then noteFallback s (fallbackKey p) else s)))"

subsection \<open>The binding cache and the reference counter\<close>

text \<open>
  \<^verbatim>\<open>!this.nodeCounts[key]\<close>: a missing entry, zero and \<^verbatim>\<open>NaN\<close> are falsy, a member of
  \<^verbatim>\<open>Object.prototype\<close> is truthy.
\<close>

definition countFalsy :: "jsnum lookup \<Rightarrow> bool" where
  "countFalsy c =
     (case c of
        Undefined \<Rightarrow> True
      | Member k \<Rightarrow> False
      | Own v \<Rightarrow> (case v of NaN \<Rightarrow> True | Num n \<Rightarrow> n = 0))"

text \<open>
  The value that \<^verbatim>\<open>x++\<close> and \<^verbatim>\<open>x--\<close> store: \<^verbatim>\<open>undefined\<close> and a member of
  \<^verbatim>\<open>Object.prototype\<close> convert to \<^verbatim>\<open>NaN\<close>.
\<close>

definition increment :: "jsnum lookup \<Rightarrow> jsnum" where
  "increment c = (case c of Own (Num n) \<Rightarrow> Num (n + 1) | _ \<Rightarrow> NaN)"

definition decrement :: "jsnum lookup \<Rightarrow> jsnum" where
  "decrement c = (case c of Own (Num n) \<Rightarrow> Num (n - 1) | _ \<Rightarrow> NaN)"

definition encodedPath :: "animPath \<Rightarrow> string" where
  "encodedPath p = encode (PathArr (entityPath p)) (component p) (propertyPath p)"

text \<open>
  \<^verbatim>\<open>let target = this.targetCache[encodedPath]; if (target) return target\<close>: the value to
  return, if any.
\<close>

definition cachedTarget :: "animBinder \<Rightarrow> string \<Rightarrow> jsval option" where
  "cachedTarget s k =
     (case plainGet (targetCache s) k of
        Own v \<Rightarrow> if truthy v then Some v else None
      | Member x \<Rightarrow> Some (Obj (Inherited x))
      | Undefined \<Rightarrow> None)"

definition countNode :: "animBinder \<Rightarrow> nodeRef \<Rightarrow> animBinder" where
  "countNode s node =
     (let k = keyOf (pathOf node) in
      if countFalsy (plainGet (nodeCounts s) k)
      then s\<lparr>activeNodes := activeNodes s @ [node],
             nodeCounts := plainSet (nodeCounts s) k (Num 1)\<rparr>
      else s\<lparr>nodeCounts := plainSet (nodeCounts s) k (increment (plainGet (nodeCounts s) k))\<rparr>)"

text \<open>
  \<^verbatim>\<open>this.targetCache[encodedPath] = target\<close>: the key holds a separator and so is not
  \<^verbatim>\<open>__proto__\<close>; it becomes an own property.
\<close>

definition resolve :: "animBinder \<Rightarrow> animPath \<Rightarrow> (jsError + jsval option) \<times> animBinder" where
  "resolve s p =
     (case cachedTarget s (encodedPath p) of
        Some target \<Rightarrow> (Inr (Some target), s)
      | None \<Rightarrow>
          (case findNode s p of
             (None, s1) \<Rightarrow> (Inr None, s1)
           | (Some node, s1) \<Rightarrow>
               (case handlers (propertyPath p) of
                  None \<Rightarrow> (Inr None, s1)
                | Some handler \<Rightarrow>
                    (case handler (nextTargetId s1) node of
                       Inl e \<Rightarrow> (Inl e, s1)
                     | Inr None \<Rightarrow> (Inr None, s1)
                     | Inr (Some target) \<Rightarrow>
                         if \<not> truthy target then (Inr None, s1)
                         else (Inr (Some target),
                               countNode
                                 (s1\<lparr>targetCache := (targetCache s1)(encodedPath p \<mapsto> target),
                                     nextTargetId := Suc (nextTargetId s1)\<rparr>)
                                 node)))))"

text \<open>
  Modelled from the spec: the \<^verbatim>\<open>node\<close> property that \<^verbatim>\<open>unresolve\<close> reads of the value it
  found. The node interface of section 6 has \<^verbatim>\<open>children\<close>, \<^verbatim>\<open>name\<close>, \<^verbatim>\<open>path\<close> and
  \<^verbatim>\<open>_dirtifyLocal\<close> and no such property, no source file sets one, and no member of
  \<^verbatim>\<open>Object.prototype\<close> has one: the read gives \<^verbatim>\<open>undefined\<close>.
\<close>

definition nodeProperty :: "nodeRef \<Rightarrow> nodeRef option" where
  "nodeProperty node = None"

text \<open>Identity of two objects.\<close>

definition sameObject :: "nodeRef \<Rightarrow> nodeRef \<Rightarrow> bool" where
  "sameObject a b =
     (case (a, b) of
        (GNode x, GNode y) \<Rightarrow> nid x = nid y
      | (Inherited j, Inherited k) \<Rightarrow> j = k
      | _ \<Rightarrow> False)"

text \<open>\<^verbatim>\<open>Array.prototype.indexOf\<close> on the active list; no element is \<^verbatim>\<open>undefined\<close>.\<close>

fun indexFrom :: "nodeRef list \<Rightarrow> nodeRef \<Rightarrow> int \<Rightarrow> int" where
  "indexFrom [] x i = -1"
| "indexFrom (y # ys) x i = (if sameObject y x then i else indexFrom ys x (i + 1))"

definition indexOf :: "nodeRef list \<Rightarrow> nodeRef option \<Rightarrow> int" where
  "indexOf xs v = (case v of None \<Rightarrow> -1 | Some x \<Rightarrow> indexFrom xs x 0)"

text \<open>
  \<^verbatim>\<open>activeNodes[i] = v\<close> for \<^verbatim>\<open>i\<close> below the length: a negative \<^verbatim>\<open>i\<close> sets a property
  that is no element of the array and leaves the elements as they are.
\<close>

definition arraySet :: "'a list \<Rightarrow> int \<Rightarrow> 'a \<Rightarrow> 'a list" where
  "arraySet xs i v = (if 0 \<le> i then xs[nat i := v] else xs)"

text \<open>\<^verbatim>\<open>Array.prototype.pop\<close>: no effect on an empty array.\<close>

definition pop :: "'a list \<Rightarrow> 'a list" where
  "pop xs = butlast xs"

definition removeActive :: "animBinder \<Rightarrow> nodeRef \<Rightarrow> animBinder" where
  "removeActive s node =
     (let i = indexOf (activeNodes s) (nodeProperty node);
          len = int (length (activeNodes s));
          swapped = (if i < len - 1
                     then arraySet (activeNodes s) i (activeNodes s ! nat (len - 1))
                     else activeNodes s)
      in s\<lparr>activeNodes := pop swapped\<rparr>)"

definition unresolve :: "animBinder \<Rightarrow> animPath \<Rightarrow> jsError + animBinder" where
  "unresolve s p =
     (if component p \<noteq> ''graph'' then Inr s
      else (case nodeLookup (nodes s) (lastSegment (entityPath p)) of
              None \<Rightarrow> Inl TypeError
            | Some node \<Rightarrow>
                (let k = keyOf (pathOf node);
                     s1 = s\<lparr>nodeCounts :=
                             plainSet (nodeCounts s) k (decrement (plainGet (nodeCounts s) k))\<rparr>
                 in if plainGet (nodeCounts s1) k = Own (Num 0)
                    then Inr (removeActive s1 node)
                    else Inr s1)))"

text \<open>
  \<^verbatim>\<open>update\<close>: the nodes on which \<^verbatim>\<open>_dirtifyLocal\<close> is called, in the order of the calls,
  and the error that ended the loop, if any: a member of \<^verbatim>\<open>Object.prototype\<close> in the
  active list has no \<^verbatim>\<open>_dirtifyLocal\<close>, and the call throws a TypeError.
\<close>

fun dirtifyFrom :: "nodeRef list \<Rightarrow> gnode list \<Rightarrow> gnode list \<times> jsError option" where
  "dirtifyFrom [] called = (called, None)"
| "dirtifyFrom (GNode n # rest) called = dirtifyFrom rest (called @ [n])"
| "dirtifyFrom (Inherited k # rest) called = (called, Some TypeError)"

definition update :: "animBinder \<Rightarrow> 'd \<Rightarrow> gnode list \<times> jsError option" where
  "update s deltaTime = dirtifyFrom (activeNodes s) []"

subsection \<open>The traversal order of the constructor, as the specification words it\<close>

text \<open>
  Depth-first pre-order: a node before its children, the children in index order. This
  definition follows the words of the claim, not the code; \<open>flatten\<close> above is the code.
\<close>

fun preorder :: "gnode \<Rightarrow> gnode list" where
  "preorder (GraphNode i nm pth ob cs) = GraphNode i nm pth ob cs # concat (map preorder cs)"

definition lastVisited :: "string \<Rightarrow> gnode \<Rightarrow> gnode option" where
  "lastVisited nm g =
     (case filter (\<lambda>n. name n = nm) (preorder g) of
        [] \<Rightarrow> None
      | y # ys \<Rightarrow> Some (last (y # ys)))"

text \<open>The assignment \<^verbatim>\<open>nodes[node.name] = node\<close> on its own.\<close>

definition indexNode :: "gnode \<Rightarrow> (string \<rightharpoonup> gnode) \<Rightarrow> (string \<rightharpoonup> gnode)" where
  "indexNode x m = m(name x \<mapsto> x)"

subsection \<open>Concrete scenes and paths\<close>

definition plainObject :: object where
  "plainObject = Object False None None None"

definition mkPath :: "string list \<Rightarrow> string \<Rightarrow> string \<Rightarrow> animPath" where
  "mkPath ep kind prop = \<lparr>entityPath = ep, component = kind, propertyPath = prop\<rparr>"

text \<open>The graph A -> B -> C.\<close>

definition nodeABC_C :: gnode where
  "nodeABC_C = GraphNode 2 ''C'' ''B/C'' plainObject []"

definition nodeABC_B :: gnode where
  "nodeABC_B = GraphNode 1 ''B'' ''B'' plainObject [nodeABC_C]"

definition graphABC :: gnode where
  "graphABC = GraphNode 0 ''A'' [] plainObject [nodeABC_B]"

definition maskSubtree :: "string \<rightharpoonup> maskItem" where
  "maskSubtree = [''A/B'' \<mapsto> \<lparr>maskValue = None, maskChildren = Some True\<rparr>]"

definition maskExclusion :: "string \<rightharpoonup> maskItem" where
  "maskExclusion = [''A'' \<mapsto> \<lparr>maskValue = None, maskChildren = Some True\<rparr>,
                    ''A/B'' \<mapsto> \<lparr>maskValue = Some False, maskChildren = None\<rparr>]"

text \<open>A graph with two nodes named B: R -> [B, C -> [B]].\<close>

definition nodeB1 :: gnode where
  "nodeB1 = GraphNode 1 ''B'' ''B'' plainObject []"

definition nodeB2 :: gnode where
  "nodeB2 = GraphNode 3 ''B'' ''C/B'' plainObject []"

definition nodeC :: gnode where
  "nodeC = GraphNode 2 ''C'' ''C'' plainObject [nodeB2]"

definition dupGraph :: gnode where
  "dupGraph = GraphNode 0 ''R'' [] plainObject [nodeB1, nodeC]"

text \<open>A graph with two children of distinct names: R -> [X, Y].\<close>

definition nodeX :: gnode where
  "nodeX = GraphNode 1 ''X'' ''X'' plainObject []"

definition nodeY :: gnode where
  "nodeY = GraphNode 2 ''Y'' ''Y'' plainObject []"

definition pairGraph :: gnode where
  "pairGraph = GraphNode 0 ''R'' [] plainObject [nodeX, nodeY]"

text \<open>
  resolve of X, resolve of Y, then unresolve of X, on a fresh instance for \<open>pairGraph\<close>.
\<close>

definition afterResolveX :: animBinder where
  "afterResolveX =
     snd (resolve (DefaultAnimBinder True pairGraph) (mkPath [''X''] ''graph'' ''localPosition''))"

definition afterResolveXY :: animBinder where
  "afterResolveXY = snd (resolve afterResolveX (mkPath [''Y''] ''graph'' ''localPosition''))"

definition afterUnresolveX :: "jsError + animBinder" where
  "afterUnresolveX = unresolve afterResolveXY (mkPath [''X''] ''graph'' ''localPosition'')"

text \<open>A node M, an entity with one mesh instance whose morph has three targets.\<close>

definition morphNode :: gnode where
  "morphNode =
     GraphNode 1 ''M'' ''M''
       (Object True
          (Some (Some [\<lparr>miNodeName = ''M'',
                        miMorphInstance = Some \<lparr>morphId = 7, targetsLength = 3\<rparr>\<rparr>]))
          None None)
       []"

definition morphGraph :: gnode where
  "morphGraph = GraphNode 0 ''R'' [] plainObject [morphNode]"




text \<open>A graph whose one child is named like a member of \<^verbatim>\<open>Object.prototype\<close>.\<close>

definition nodeConstructor :: gnode where
  "nodeConstructor = GraphNode 1 ''constructor'' ''constructor'' plainObject []"

definition memberGraph :: gnode where
  "memberGraph = GraphNode 0 ''R'' [] plainObject [nodeConstructor]"

text \<open>
  An instance for A -> B -> C after an \<open>unresolve\<close> of the path ["B"] that no
  \<open>resolve\<close> preceded.
\<close>

definition afterStrayUnresolve :: "jsError + animBinder" where
  "afterStrayUnresolve =
     unresolve (DefaultAnimBinder True graphABC) (mkPath [''B''] ''graph'' ''localPosition'')"

subsection \<open>Notions the properties are stated with\<close>

text \<open>
  The reference count of a path as a number: a path without an entry counts zero, and
  what is no number counts as \<^verbatim>\<open>NaN\<close>.
\<close>

definition countValue :: "jsnum lookup \<Rightarrow> jsnum" where
  "countValue c = (case c of Undefined \<Rightarrow> Num 0 | Member k \<Rightarrow> NaN | Own v \<Rightarrow> v)"

text \<open>The morph instances that the weights handler collects for a node.\<close>

definition morphInstancesAt :: "nodeRef \<Rightarrow> morphInstance list" where
  "morphInstancesAt node =
     (case findMeshInstances node of
        None \<Rightarrow> []
      | Some meshInstances \<Rightarrow> collectMorphInstances (nameOf node) meshInstances)"

text \<open>Successive \<open>findNode\<close> calls, each on the state the one before left.\<close>

fun findNodes :: "animBinder \<Rightarrow> animPath list \<Rightarrow> animBinder" where
  "findNodes s [] = s"
| "findNodes s (p # ps) = findNodes (snd (findNode s p)) ps"

text \<open>
  What the stages of \<open>resolve\<close> after the cache lookup come to: an error, nothing, or the
  node found and the value its handler made.
\<close>

definition bindResult :: "animBinder \<Rightarrow> animPath \<Rightarrow> jsError + (nodeRef \<times> jsval) option" where
  "bindResult s p =
     (case fst (findNode s p) of
        None \<Rightarrow> Inr None
      | Some node \<Rightarrow>
          (case handlers (propertyPath p) of
             None \<Rightarrow> Inr None
           | Some handler \<Rightarrow>
               (case handler (nextTargetId s) node of
                  Inl e \<Rightarrow> Inl e
                | Inr None \<Rightarrow> Inr None
                | Inr (Some target) \<Rightarrow>
                    if truthy target then Inr (Some (node, target)) else Inr None)))"

text \<open>The \<^verbatim>\<open>AnimTarget\<close> that a \<open>resolve\<close> returned, if it returned one, and its number.\<close>

definition resultTarget :: "jsError + jsval option \<Rightarrow> animTarget option" where
  "resultTarget r = (case r of Inr (Some (Target t)) \<Rightarrow> Some t | _ \<Rightarrow> None)"

definition resultTid :: "jsError + jsval option \<Rightarrow> nat option" where
  "resultTid r = map_option tid (resultTarget r)"

text \<open>
  A \<open>findNode\<close> call for the path is past the mask, fails the exact traversal and so uses
  the fallback, with the canonical fallback form \<open>k\<close>.
\<close>

definition usesFallback :: "animBinder \<Rightarrow> string \<Rightarrow> animPath \<Rightarrow> bool" where
  "usesFallback s k p =
     (fallbackKey p = k \<and> isPathActive s p \<and> findByPath (graph s) (entityPath p) = None)"

section \<open>Properties\<close>

subsection \<open>Keys that are no member of the prototype\<close>

lemma member_no_separator: "k \<in> set objectPrototypeNames \<Longrightarrow> CHR ''/'' \<notin> set k"
  by (auto simp: objectPrototypeNames_def)

lemma encode_has_separator: "CHR ''/'' \<in> set (encode ep kind prop)"
  by (simp add: encode_def)

lemma encode_not_member: "encode ep kind prop \<notin> set objectPrototypeNames"
  using member_no_separator encode_has_separator by blast

lemma proto_is_member: "''__proto__'' \<in> set objectPrototypeNames"
  by (simp add: objectPrototypeNames_def)

lemma plainGet_plain:
  "k \<notin> set objectPrototypeNames \<Longrightarrow>
   plainGet m k = (case m k of None \<Rightarrow> Undefined | Some v \<Rightarrow> Own v)"
  by (simp add: plainGet_def)

lemma plainSet_plain: "k \<notin> set objectPrototypeNames \<Longrightarrow> plainSet m k v = m(k \<mapsto> v)"
  using proto_is_member by (auto simp: plainSet_def)

lemma plainGet_own: "m k = Some v \<Longrightarrow> plainGet m k = Own v"
  by (simp add: plainGet_def)

subsection \<open>The mask evaluator\<close>

text \<open>
  C5. With a mask whose only entry is "A/B" with children: true and a graph whose root is
  named A, a path with entity path ["A", "B", "C"] is active although the mask has no entry
  "A/B/C", and a path with entity path ["A", "X"] is inactive.
\<close>

theorem mask_subtree_inclusion:
  assumes "mask_field s = Some maskSubtree" and "name (graph s) = ''A''"
  shows "(entityPath p = [''A'', ''B'', ''C''] \<longrightarrow> isPathActive s p) \<and>
         (entityPath p = [''A'', ''X''] \<longrightarrow> \<not> isPathActive s p)"
  using assms
  by (simp add: isPathActive_def entityPathArrays_def firstSegment_def candidateStep_def
      exactEntryActive_def childrenSet_def maskSubtree_def prefixLoop.simps
      plainGet_def objectPrototypeNames_def)

theorem mask_subtree_inclusion_witness:
  "isPathActive (assignMask (DefaultAnimBinder True graphABC) (Some maskSubtree))
     (mkPath [''A'', ''B'', ''C''] ''graph'' ''localPosition'') \<and>
   \<not> isPathActive (assignMask (DefaultAnimBinder True graphABC) (Some maskSubtree))
     (mkPath [''A'', ''X''] ''graph'' ''localPosition'')"
  using mask_subtree_inclusion
      [of "assignMask (DefaultAnimBinder True graphABC) (Some maskSubtree)"
          "mkPath [''A'', ''B'', ''C''] ''graph'' ''localPosition''"]
    mask_subtree_inclusion
      [of "assignMask (DefaultAnimBinder True graphABC) (Some maskSubtree)"
          "mkPath [''A'', ''X''] ''graph'' ''localPosition''"]
  by (simp add: assignMask_def DefaultAnimBinder_def graphABC_def mkPath_def)

text \<open>
  C4, as the claim states it, fails: with "A/B" at value: false and "A" at children: true,
  the path ["A", "B"] under a root named A is evaluated as active.
\<close>

theorem mask_exact_false_counterexample:
  "isPathActive (assignMask (DefaultAnimBinder True graphABC) (Some maskExclusion))
     (mkPath [''A'', ''B''] ''graph'' ''localPosition'')"
  by (simp add: assignMask_def DefaultAnimBinder_def graphABC_def mkPath_def maskExclusion_def
      isPathActive_def entityPathArrays_def firstSegment_def candidateStep_def
      exactEntryActive_def childrenSet_def prefixLoop.simps plainGet_def)

text \<open>
  C4, amended. With a mask that has "A/B" at value: false and a graph whose root is named A,
  the path ["A", "B"] is active exactly when "A" or "A/B" has children: true. The value false
  at the exact path only switches the exact-match rule off; an ancestor with children: true
  still makes the path active.
\<close>

theorem mask_exact_false_not_overriding:
  assumes "mask_field s = Some m" and "name (graph s) = ''A''"
    and "entityPath p = [''A'', ''B'']"
    and "m ''A/B'' = Some ab" and "maskValue ab = Some False"
  shows "isPathActive s p = (childrenSet (m ''A'') \<or> childrenSet (m ''A/B''))"
  using assms
  by (simp add: isPathActive_def entityPathArrays_def firstSegment_def candidateStep_def
      exactEntryActive_def prefixLoop.simps plainGet_def)

theorem mask_exact_false_not_overriding_witness:
  "isPathActive (assignMask (DefaultAnimBinder True graphABC) (Some maskExclusion))
     (mkPath [''A'', ''B''] ''graph'' ''localPosition'') = True"
  using mask_exact_false_not_overriding
      [of "assignMask (DefaultAnimBinder True graphABC) (Some maskExclusion)"
          maskExclusion "mkPath [''A'', ''B''] ''graph'' ''localPosition''"
          "\<lparr>maskValue = Some False, maskChildren = None\<rparr>"]
  by (simp add: assignMask_def DefaultAnimBinder_def graphABC_def mkPath_def
      maskExclusion_def childrenSet_def)

subsection \<open>The flat name index\<close>

lemma indexNode_apply: "indexNode x m k = (if k = name x then Some x else m k)"
  by (simp add: indexNode_def)

lemma indexNode_GraphNode:
  "m(nm \<mapsto> GraphNode i nm pth ob cs) = indexNode (GraphNode i nm pth ob cs) m"
  by (simp add: indexNode_def)

lemma fold_index_last:
  "fold indexNode xs m nm =
     (case filter (\<lambda>n. name n = nm) xs of
        [] \<Rightarrow> m nm
      | y # ys \<Rightarrow> Some (last (y # ys)))"
proof (induction xs arbitrary: m)
  case Nil
  then show ?case by simp
next
  case (Cons x xs)
  have step: "fold indexNode (x # xs) m nm =
      (case filter (\<lambda>n. name n = nm) xs of
         [] \<Rightarrow> indexNode x m nm
       | y # ys \<Rightarrow> Some (last (y # ys)))"
    by (simp add: Cons.IH)
  have val: "indexNode x m nm = (if nm = name x then Some x else m nm)"
    by (rule indexNode_apply)
  show ?case
    unfolding step val by (simp split: list.splits)
qed

lemma fold_flatten_children:
  assumes "\<And>c m. c \<in> set cs \<Longrightarrow> flatten c m = fold indexNode (preorder c) m"
  shows "fold flatten cs m = fold indexNode (concat (map preorder cs)) m"
  using assms
  by (induction cs arbitrary: m) simp_all

lemma flatten_preorder: "flatten n m = fold indexNode (preorder n) m"
proof (induction n arbitrary: m)
  case (GraphNode i nm pth ob cs)
  have "fold flatten cs (indexNode (GraphNode i nm pth ob cs) m) =
        fold indexNode (concat (map preorder cs)) (indexNode (GraphNode i nm pth ob cs) m)"
    by (rule fold_flatten_children) (rule GraphNode.IH)
  then show ?case by (simp add: indexNode_GraphNode)
qed

lemma nodes_constructor: "nodes (DefaultAnimBinder dbg g) nm = lastVisited nm g"
  by (simp add: DefaultAnimBinder_def flatten_preorder fold_index_last lastVisited_def)

text \<open>
  C10. The flat name index that the constructor builds maps a name to the node of that name
  that a depth-first pre-order traversal visits last. As long as the index is the one the
  constructor built, a fallback resolution returns that node, and \<open>unresolve\<close> of a graph
  path decrements the count of that node, whatever an earlier exact-path resolve bound.
  For a name that no node has, in a graph without a node named \<^verbatim>\<open>__proto__\<close>, the
  fallback and \<open>unresolve\<close> get what the lookup of the name in an empty object gives,
  and \<open>unresolve\<close> throws when that is \<^verbatim>\<open>undefined\<close>.
\<close>

theorem flat_index_last_visited:
  assumes "nodes s = nodes (DefaultAnimBinder dbg g)"
  shows "nodes s nm = lastVisited nm g \<and>
         (isPathActive s p \<and> findByPath (graph s) (entityPath p) = None \<longrightarrow>
            (case lastVisited (lastSegment (entityPath p)) g of
               None \<Rightarrow>
                 lastVisited ''__proto__'' g = None \<longrightarrow>
                 fst (findNode s p) = nodeLookup Map.empty (lastSegment (entityPath p))
             | Some n \<Rightarrow> fst (findNode s p) = Some (GNode n))) \<and>
         (component p = ''graph'' \<longrightarrow>
            (case lastVisited (lastSegment (entityPath p)) g of
               None \<Rightarrow>
                 lastVisited ''__proto__'' g = None \<longrightarrow>
                 (unresolve s p = Inl TypeError) =
                   (nodeLookup Map.empty (lastSegment (entityPath p)) = None)
             | Some n \<Rightarrow> \<not> isl (unresolve s p) \<and>
                 nodeCounts (projr (unresolve s p)) =
                   plainSet (nodeCounts s) (path n)
                     (decrement (plainGet (nodeCounts s) (path n)))))"
proof -
  have idx: "\<And>k. nodes s k = lastVisited k g"
    using assms by (simp add: nodes_constructor)
  have look: "\<And>k. nodeLookup (nodes s) k =
      (case lastVisited k g of None \<Rightarrow> nodeLookup Map.empty k | Some n \<Rightarrow> Some (GNode n))"
    by (simp add: nodeLookup_def plainGet_def idx split: option.splits)
  have a: "isPathActive s p \<and> findByPath (graph s) (entityPath p) = None \<longrightarrow>
            (case lastVisited (lastSegment (entityPath p)) g of
               None \<Rightarrow>
                 lastVisited ''__proto__'' g = None \<longrightarrow>
                 fst (findNode s p) = nodeLookup Map.empty (lastSegment (entityPath p))
             | Some n \<Rightarrow> fst (findNode s p) = Some (GNode n))"
    by (simp add: findNode_def look split: option.splits)
  have b: "component p = ''graph'' \<longrightarrow>
            (case lastVisited (lastSegment (entityPath p)) g of
               None \<Rightarrow>
                 lastVisited ''__proto__'' g = None \<longrightarrow>
                 (unresolve s p = Inl TypeError) =
                   (nodeLookup Map.empty (lastSegment (entityPath p)) = None)
             | Some n \<Rightarrow> \<not> isl (unresolve s p) \<and>
                 nodeCounts (projr (unresolve s p)) =
                   plainSet (nodeCounts s) (path n)
                     (decrement (plainGet (nodeCounts s) (path n))))"
    by (simp add: unresolve_def look removeActive_def Let_def pathOf_def keyOf_def
        split: option.splits)
  show ?thesis using idx a b by blast
qed

theorem flat_index_last_visited_witness:
  "nodes (DefaultAnimBinder True dupGraph) ''B'' = Some nodeB2 \<and>
   fst (findNode (DefaultAnimBinder True dupGraph) (mkPath [''X'', ''B''] ''graph'' ''localPosition''))
     = Some (GNode nodeB2) \<and>
   nodeCounts (projr (unresolve (DefaultAnimBinder True dupGraph)
       (mkPath [''X'', ''B''] ''graph'' ''localPosition''))) ''C/B'' = Some NaN"
proof -
  have lv: "lastVisited ''B'' dupGraph = Some nodeB2"
    by (simp add: lastVisited_def dupGraph_def nodeB1_def nodeB2_def nodeC_def)
  have act: "isPathActive (DefaultAnimBinder True dupGraph)
      (mkPath [''X'', ''B''] ''graph'' ''localPosition'')"
    by (simp add: isPathActive_def DefaultAnimBinder_def)
  have nf: "findByPath (graph (DefaultAnimBinder True dupGraph))
      (entityPath (mkPath [''X'', ''B''] ''graph'' ''localPosition'')) = None"
    by (simp add: DefaultAnimBinder_def dupGraph_def nodeB1_def nodeC_def mkPath_def)
  have ls: "lastSegment (entityPath (mkPath [''X'', ''B''] ''graph'' ''localPosition'')) = ''B''"
    by (simp add: lastSegment_def mkPath_def)
  have cnt: "nodeCounts (DefaultAnimBinder True dupGraph) = Map.empty"
    by (simp add: DefaultAnimBinder_def)
  show ?thesis
    using flat_index_last_visited [of "DefaultAnimBinder True dupGraph" True dupGraph "''B''"
        "mkPath [''X'', ''B''] ''graph'' ''localPosition''"] lv act nf ls
    by (simp add: cnt decrement_def nodeB2_def mkPath_def plainGet_def plainSet_def
        objectPrototypeNames_def)
qed

subsection \<open>Errors of unresolve\<close>

text \<open>
  \<open>unresolve\<close> throws exactly for a graph path whose last segment, looked up in the name
  index, gives \<^verbatim>\<open>undefined\<close>: it reads \<^verbatim>\<open>node.path\<close> of it. For any other component kind
  it changes nothing.
\<close>

lemma unresolve_error_iff:
  "isl (unresolve s p) =
     (component p = ''graph'' \<and> nodeLookup (nodes s) (lastSegment (entityPath p)) = None)"
  by (simp add: unresolve_def Let_def split: option.splits)

lemma unresolve_other_component: "component p \<noteq> ''graph'' \<Longrightarrow> unresolve s p = Inr s"
  by (simp add: unresolve_def)

text \<open>
  C7 does not hold of the code. On a fresh instance for the graph A -> B -> C,
  \<open>resolve\<close> of the graph path with the empty entity path binds the root, and the
  \<open>unresolve\<close> paired with it throws a TypeError: the name index has no entry for the
  empty name. So does \<open>unresolve\<close> of a path ["Z"] that names no node, where
  \<open>resolve\<close>, which tests the result of the same lookup, returns absent.
\<close>

theorem unresolve_throws_on_missing_node:
  "resultTid (fst (resolve (DefaultAnimBinder True graphABC)
      (mkPath [] ''graph'' ''localPosition''))) = Some 0 \<and>
   activeNodes (snd (resolve (DefaultAnimBinder True graphABC)
      (mkPath [] ''graph'' ''localPosition''))) = [GNode graphABC] \<and>
   isl (unresolve (snd (resolve (DefaultAnimBinder True graphABC)
        (mkPath [] ''graph'' ''localPosition'')))
      (mkPath [] ''graph'' ''localPosition'')) \<and>
   fst (resolve (DefaultAnimBinder True graphABC)
      (mkPath [''Z''] ''graph'' ''localPosition'')) = Inr None \<and>
   isl (unresolve (DefaultAnimBinder True graphABC)
      (mkPath [''Z''] ''graph'' ''localPosition''))"
  by code_simp

subsection \<open>The binding cache\<close>

lemma isPathActive_cong:
  "mask_field s' = mask_field s \<Longrightarrow> graph s' = graph s \<Longrightarrow> isPathActive s' p = isPathActive s p"
  by (simp add: isPathActive_def entityPathArrays_def split: option.splits)

lemma noteFallback_frame:
  "graph (noteFallback s k) = graph s"
  "mask_field (noteFallback s k) = mask_field s"
  "nodes (noteFallback s k) = nodes s"
  "targetCache (noteFallback s k) = targetCache s"
  "nodeCounts (noteFallback s k) = nodeCounts s"
  "activeNodes (noteFallback s k) = activeNodes s"
  "nextTargetId (noteFallback s k) = nextTargetId s"
  "debugBuild (noteFallback s k) = debugBuild s"
  by (simp_all add: noteFallback_def Let_def split: lookup.splits)

lemma findNode_frame:
  "graph (snd (findNode s p)) = graph s"
  "mask_field (snd (findNode s p)) = mask_field s"
  "nodes (snd (findNode s p)) = nodes s"
  "targetCache (snd (findNode s p)) = targetCache s"
  "nodeCounts (snd (findNode s p)) = nodeCounts s"
  "activeNodes (snd (findNode s p)) = activeNodes s"
  "nextTargetId (snd (findNode s p)) = nextTargetId s"
  "debugBuild (snd (findNode s p)) = debugBuild s"
  by (simp_all add: findNode_def noteFallback_frame split: option.splits)

lemma findNode_fst:
  "fst (findNode s p) =
     (if \<not> isPathActive s p then None
      else (case findByPath (graph s) (entityPath p) of
              Some node \<Rightarrow> Some (GNode node)
            | None \<Rightarrow> nodeLookup (nodes s) (lastSegment (entityPath p))))"
  by (simp add: findNode_def split: option.splits)

lemma findNode_fst_cong:
  "mask_field s' = mask_field s \<Longrightarrow> graph s' = graph s \<Longrightarrow> nodes s' = nodes s \<Longrightarrow>
   fst (findNode s' p) = fst (findNode s p)"
  by (simp add: findNode_fst isPathActive_cong [of s' s] cong: option.case_cong)

lemma cachedTarget_cong: "targetCache s' = targetCache s \<Longrightarrow> cachedTarget s' k = cachedTarget s k"
  by (simp add: cachedTarget_def)

lemma cachedTarget_stored:
  "truthy t \<Longrightarrow> targetCache s (encodedPath p) = Some t \<Longrightarrow>
   cachedTarget s (encodedPath p) = Some t"
  by (simp add: cachedTarget_def plainGet_own)

lemma resolve_hit:
  "cachedTarget s (encodedPath p) = Some t \<Longrightarrow> resolve s p = (Inr (Some t), s)"
  by (simp add: resolve_def)

lemma resolve_miss_error:
  "cachedTarget s (encodedPath p) = None \<Longrightarrow> bindResult s p = Inl e \<Longrightarrow>
   resolve s p = (Inl e, snd (findNode s p))"
  using findNode_frame(7) [of s p]
  by (cases "findNode s p")
     (auto simp: resolve_def bindResult_def split: option.splits sum.splits if_splits)

lemma resolve_miss_fail:
  "cachedTarget s (encodedPath p) = None \<Longrightarrow> bindResult s p = Inr None \<Longrightarrow>
   resolve s p = (Inr None, snd (findNode s p))"
  using findNode_frame(7) [of s p]
  by (cases "findNode s p")
     (auto simp: resolve_def bindResult_def split: option.splits sum.splits if_splits)

lemma resolve_miss_bind:
  "cachedTarget s (encodedPath p) = None \<Longrightarrow> bindResult s p = Inr (Some (node, t)) \<Longrightarrow>
   resolve s p =
     (Inr (Some t),
      countNode ((snd (findNode s p))\<lparr>targetCache := (targetCache s)(encodedPath p \<mapsto> t),
                                      nextTargetId := Suc (nextTargetId s)\<rparr>) node)"
  using findNode_frame(7) [of s p] findNode_frame(4) [of s p]
  by (cases "findNode s p")
     (auto simp: resolve_def bindResult_def split: option.splits sum.splits if_splits)

lemma bindResult_truthy: "bindResult s p = Inr (Some (node, t)) \<Longrightarrow> truthy t"
  by (auto simp: bindResult_def split: option.splits sum.splits if_splits)

lemma countNode_frame:
  "targetCache (countNode s n) = targetCache s"
  "graph (countNode s n) = graph s"
  "mask_field (countNode s n) = mask_field s"
  "nodes (countNode s n) = nodes s"
  by (simp_all add: countNode_def Let_def)

lemma bindResult_cong:
  "mask_field s' = mask_field s \<Longrightarrow> graph s' = graph s \<Longrightarrow> nodes s' = nodes s \<Longrightarrow>
   nextTargetId s' = nextTargetId s \<Longrightarrow> bindResult s' p = bindResult s p"
  by (simp add: bindResult_def findNode_fst_cong [of s' s] cong: option.case_cong)

text \<open>
  C3. For every path, a second \<open>resolve\<close> right after the first returns what the first
  returned (the cached target, the same object, when the first bound one) and leaves the
  reference counts and the active node list as the first call left them.
\<close>

theorem resolve_idempotent:
  "fst (resolve (snd (resolve s p)) p) = fst (resolve s p) \<and>
   nodeCounts (snd (resolve (snd (resolve s p)) p)) = nodeCounts (snd (resolve s p)) \<and>
   activeNodes (snd (resolve (snd (resolve s p)) p)) = activeNodes (snd (resolve s p))"
proof (cases "cachedTarget s (encodedPath p)")
  case (Some t)
  then show ?thesis by (simp add: resolve_hit)
next
  case None
  let ?sf = "snd (findNode s p)"
  have miss: "cachedTarget ?sf (encodedPath p) = None"
    using None by (simp add: cachedTarget_cong [of ?sf s] findNode_frame)
  have same: "bindResult ?sf p = bindResult s p"
    by (simp add: bindResult_cong [of ?sf s] findNode_frame)
  show ?thesis
  proof (cases "bindResult s p")
    case (Inl e)
    have first: "resolve s p = (Inl e, ?sf)"
      using None Inl by (rule resolve_miss_error)
    have second: "resolve ?sf p = (Inl e, snd (findNode ?sf p))"
      using miss same Inl by (simp add: resolve_miss_error)
    show ?thesis by (simp add: first second findNode_frame)
  next
    case (Inr r)
    show ?thesis
    proof (cases r)
      case bnone: None
      have first: "resolve s p = (Inr None, ?sf)"
        using None Inr bnone by (simp add: resolve_miss_fail)
      have second: "resolve ?sf p = (Inr None, snd (findNode ?sf p))"
        using miss same Inr bnone by (simp add: resolve_miss_fail)
      show ?thesis by (simp add: first second findNode_frame)
    next
      case (Some b)
      obtain node t where b: "b = (node, t)" by (cases b)
      have bind: "bindResult s p = Inr (Some (node, t))"
        using Inr Some b by simp
      have first: "resolve s p =
        (Inr (Some t),
         countNode (?sf\<lparr>targetCache := (targetCache s)(encodedPath p \<mapsto> t),
                        nextTargetId := Suc (nextTargetId s)\<rparr>) node)"
        using None bind by (rule resolve_miss_bind)
      have stored: "targetCache (snd (resolve s p)) (encodedPath p) = Some t"
        by (simp add: first countNode_frame)
      have cached: "cachedTarget (snd (resolve s p)) (encodedPath p) = Some t"
        using bindResult_truthy [OF bind] stored by (rule cachedTarget_stored)
      have second: "resolve (snd (resolve s p)) p = (Inr (Some t), snd (resolve s p))"
        using cached by (rule resolve_hit)
      show ?thesis by (simp add: second) (simp add: first)
    qed
  qed
qed

theorem resolve_idempotent_witness:
  "resultTid (fst (resolve (snd (resolve (DefaultAnimBinder True graphABC)
       (mkPath [''B''] ''graph'' ''localPosition'')))
     (mkPath [''B''] ''graph'' ''localPosition''))) = Some 0 \<and>
   nodeCounts (snd (resolve (snd (resolve (DefaultAnimBinder True graphABC)
       (mkPath [''B''] ''graph'' ''localPosition'')))
     (mkPath [''B''] ''graph'' ''localPosition''))) ''B'' = Some (Num 1) \<and>
   activeNodes (snd (resolve (snd (resolve (DefaultAnimBinder True graphABC)
       (mkPath [''B''] ''graph'' ''localPosition'')))
     (mkPath [''B''] ''graph'' ''localPosition''))) = [GNode nodeABC_B]"
proof -
  have first:
    "resultTid (fst (resolve (DefaultAnimBinder True graphABC)
        (mkPath [''B''] ''graph'' ''localPosition''))) = Some 0 \<and>
     nodeCounts (snd (resolve (DefaultAnimBinder True graphABC)
        (mkPath [''B''] ''graph'' ''localPosition''))) ''B'' = Some (Num 1) \<and>
     activeNodes (snd (resolve (DefaultAnimBinder True graphABC)
        (mkPath [''B''] ''graph'' ''localPosition''))) = [GNode nodeABC_B]"
    by code_simp
  show ?thesis
    using resolve_idempotent [of "DefaultAnimBinder True graphABC"
        "mkPath [''B''] ''graph'' ''localPosition''"] first
    by simp
qed




subsection \<open>resolve followed by unresolve\<close>

lemma unresolve_after_count:
  assumes "nodes s (lastSegment (entityPath p)) = Some node" and "component p = ''graph''"
    and "path node \<notin> set objectPrototypeNames"
    and "nodeCounts s (path node) \<noteq> Some NaN"
  shows "\<not> isl (unresolve (countNode s (GNode node)) p) \<and>
         activeNodes (projr (unresolve (countNode s (GNode node)) p)) = activeNodes s \<and>
         (\<forall>k. countValue (plainGet (nodeCounts (projr (unresolve (countNode s (GNode node)) p))) k) =
               countValue (plainGet (nodeCounts s) k))"
proof -
  have look: "nodeLookup (nodes (countNode s (GNode node))) (lastSegment (entityPath p))
      = Some (GNode node)"
    using assms(1) by (simp add: nodeLookup_def plainGet_own countNode_frame)
  have key: "keyOf (pathOf (GNode node)) = path node"
    by (simp add: keyOf_def pathOf_def)
  have get: "\<And>m. plainGet m (path node) =
      (case m (path node) of None \<Rightarrow> Undefined | Some v \<Rightarrow> Own v)"
    using assms(3) by (rule plainGet_plain)
  have set: "\<And>m v. plainSet m (path node) v = m(path node \<mapsto> v)"
    using assms(3) by (rule plainSet_plain)
  show ?thesis
  proof (cases "countFalsy (plainGet (nodeCounts s) (path node))")
    case True
    then have zero: "countValue (plainGet (nodeCounts s) (path node)) = Num 0"
      using assms(4)
      by (auto simp: get countFalsy_def countValue_def split: option.splits jsnum.splits)
    have after: "countNode s (GNode node) =
        s\<lparr>activeNodes := activeNodes s @ [GNode node],
          nodeCounts := (nodeCounts s)(path node \<mapsto> Num 1)\<rparr>"
      using True by (simp add: countNode_def key set)
    have res: "unresolve (countNode s (GNode node)) p =
        Inr (s\<lparr>activeNodes := activeNodes s,
               nodeCounts := (nodeCounts s)(path node \<mapsto> Num 0)\<rparr>)"
      using look assms(2)
      by (simp add: unresolve_def key set get after decrement_def removeActive_def
          indexOf_def nodeProperty_def arraySet_def pop_def)
    have same: "countValue (plainGet ((nodeCounts s)(path node \<mapsto> Num 0)) k) =
        countValue (plainGet (nodeCounts s) k)" for k
    proof (cases "k = path node")
      case True
      have "countValue (plainGet ((nodeCounts s)(path node \<mapsto> Num 0)) (path node)) = Num 0"
        by (simp add: plainGet_own countValue_def)
      then show ?thesis using True zero by simp
    next
      case False
      then show ?thesis by (simp add: plainGet_def)
    qed
    show ?thesis
      by (simp add: res same)
  next
    case False
    then obtain n where n: "nodeCounts s (path node) = Some (Num n)" and nz: "n \<noteq> 0"
      by (auto simp: get countFalsy_def split: option.splits jsnum.splits)
    have after: "countNode s (GNode node) =
        s\<lparr>nodeCounts := (nodeCounts s)(path node \<mapsto> Num (n + 1))\<rparr>"
      using False n by (simp add: countNode_def key set get increment_def)
    have res: "unresolve (countNode s (GNode node)) p =
        Inr (s\<lparr>nodeCounts := (nodeCounts s)(path node \<mapsto> Num n)\<rparr>)"
      using look assms(2) nz
      by (simp add: unresolve_def key set get after decrement_def)
    have "(nodeCounts s)(path node \<mapsto> Num n) = nodeCounts s"
      using n by (simp add: fun_upd_idem)
    then show ?thesis
      by (simp add: res)
  qed
qed

text \<open>
  C1, as the claim states it, fails. In the graph R -> [B, C -> [B]] the path ["B"] is bound
  to the first node B by the exact traversal, and \<open>unresolve\<close> looks the name B up in the
  flat index, which holds the second node B: the count of the first stays 1 and it stays in
  the active node list. In the graph R -> [constructor] the count of the path
  "constructor" is read as the member of \<^verbatim>\<open>Object.prototype\<close> of that name:
  \<open>resolve\<close> stores \<^verbatim>\<open>NaN\<close> for it, which \<open>unresolve\<close> leaves. And a count that is
  \<^verbatim>\<open>NaN\<close> before, as after an \<open>unresolve\<close> that no \<open>resolve\<close> preceded, is 0 after.
\<close>

theorem resolve_unresolve_counterexample:
  "component (mkPath [''B''] ''graph'' ''localPosition'') = ''graph'' \<and>
   targetCache (DefaultAnimBinder True dupGraph)
     (encodedPath (mkPath [''B''] ''graph'' ''localPosition'')) = None \<and>
   resultTid (fst (resolve (DefaultAnimBinder True dupGraph)
     (mkPath [''B''] ''graph'' ''localPosition''))) = Some 0 \<and>
   activeNodes (DefaultAnimBinder True dupGraph) = [] \<and>
   nodeCounts (DefaultAnimBinder True dupGraph) ''B'' = None \<and>
   \<not> isl (unresolve (snd (resolve (DefaultAnimBinder True dupGraph)
       (mkPath [''B''] ''graph'' ''localPosition'')))
     (mkPath [''B''] ''graph'' ''localPosition'')) \<and>
   activeNodes (projr (unresolve (snd (resolve (DefaultAnimBinder True dupGraph)
       (mkPath [''B''] ''graph'' ''localPosition'')))
     (mkPath [''B''] ''graph'' ''localPosition''))) = [GNode nodeB1] \<and>
   nodeCounts (projr (unresolve (snd (resolve (DefaultAnimBinder True dupGraph)
       (mkPath [''B''] ''graph'' ''localPosition'')))
     (mkPath [''B''] ''graph'' ''localPosition''))) ''B'' = Some (Num 1) \<and>
   resultTid (fst (resolve (DefaultAnimBinder True memberGraph)
     (mkPath [''constructor''] ''graph'' ''localPosition''))) = Some 0 \<and>
   nodeCounts (DefaultAnimBinder True memberGraph) ''constructor'' = None \<and>
   nodeCounts (projr (unresolve (snd (resolve (DefaultAnimBinder True memberGraph)
       (mkPath [''constructor''] ''graph'' ''localPosition'')))
     (mkPath [''constructor''] ''graph'' ''localPosition''))) ''constructor'' = Some NaN \<and>
   nodeCounts (projr afterStrayUnresolve) ''B'' = Some NaN \<and>
   resultTid (fst (resolve (projr afterStrayUnresolve)
     (mkPath [''B''] ''graph'' ''localPosition''))) = Some 0 \<and>
   nodeCounts (projr (unresolve (snd (resolve (projr afterStrayUnresolve)
       (mkPath [''B''] ''graph'' ''localPosition'')))
     (mkPath [''B''] ''graph'' ''localPosition''))) ''B'' = Some (Num 0)"
  by code_simp

text \<open>
  C1, amended. For a graph path that is not cached, when \<open>resolve\<close> binds a graph node,
  the flat name index maps the last segment of the path (the empty string for an empty
  path) to that same node, the path of the node is no name of a member of
  \<^verbatim>\<open>Object.prototype\<close>, and the count of the node is not \<^verbatim>\<open>NaN\<close>, then \<open>unresolve\<close>
  right after \<open>resolve\<close> completes, the active node list is the list before
  \<open>resolve\<close>, and every reference count, a path without an entry counting zero, is the
  count before.
\<close>

theorem resolve_unresolve_restores:
  assumes "component p = ''graph''"
    and "cachedTarget s (encodedPath p) = None"
    and "fst (resolve s p) = Inr (Some t)"
    and "fst (findNode s p) = Some (GNode node)"
    and "nodes s (lastSegment (entityPath p)) = Some node"
    and "path node \<notin> set objectPrototypeNames"
    and "nodeCounts s (path node) \<noteq> Some NaN"
  shows "\<not> isl (unresolve (snd (resolve s p)) p) \<and>
         activeNodes (projr (unresolve (snd (resolve s p)) p)) = activeNodes s \<and>
         (\<forall>k. countValue (plainGet (nodeCounts (projr (unresolve (snd (resolve s p)) p))) k) =
               countValue (plainGet (nodeCounts s) k))"
proof -
  let ?s1 = "(snd (findNode s p))\<lparr>targetCache := (targetCache s)(encodedPath p \<mapsto> t),
                                  nextTargetId := Suc (nextTargetId s)\<rparr>"
  obtain node' t' where b: "bindResult s p = Inr (Some (node', t'))"
  proof (cases "bindResult s p")
    case (Inl e)
    then have "resolve s p = (Inl e, snd (findNode s p))"
      using assms(2) by (simp add: resolve_miss_error)
    then show ?thesis using assms(3) by simp
  next
    case (Inr r)
    show ?thesis
    proof (cases r)
      case None
      then have "resolve s p = (Inr None, snd (findNode s p))"
        using assms(2) Inr by (simp add: resolve_miss_fail)
      then show ?thesis using assms(3) by simp
    next
      case (Some b)
      then show ?thesis using Inr that by (cases b) simp
    qed
  qed
  have "node' = GNode node"
    using b assms(4) by (auto simp: bindResult_def split: option.splits sum.splits if_splits)
  moreover have "t' = t"
    using resolve_miss_bind [OF assms(2) b] assms(3) by simp
  ultimately have first: "resolve s p = (Inr (Some t), countNode ?s1 (GNode node))"
    using resolve_miss_bind [OF assms(2) b] by simp
  have 1: "nodes ?s1 (lastSegment (entityPath p)) = Some node"
    using assms(5) by (simp add: findNode_frame)
  have 3: "nodeCounts ?s1 (path node) \<noteq> Some NaN"
    using assms(7) by (simp add: findNode_frame)
  show ?thesis
    using unresolve_after_count [OF 1 assms(1) assms(6) 3]
    by (simp add: first findNode_frame)
qed

theorem resolve_unresolve_restores_witness:
  "\<not> isl (unresolve (snd (resolve (DefaultAnimBinder True graphABC)
        (mkPath [''B''] ''graph'' ''localPosition'')))
      (mkPath [''B''] ''graph'' ''localPosition'')) \<and>
   activeNodes (projr (unresolve (snd (resolve (DefaultAnimBinder True graphABC)
        (mkPath [''B''] ''graph'' ''localPosition'')))
      (mkPath [''B''] ''graph'' ''localPosition''))) = [] \<and>
   countValue (plainGet (nodeCounts (projr (unresolve (snd (resolve (DefaultAnimBinder True graphABC)
        (mkPath [''B''] ''graph'' ''localPosition'')))
      (mkPath [''B''] ''graph'' ''localPosition'')))) ''B'') = Num 0"
proof -
  let ?s = "DefaultAnimBinder True graphABC"
  let ?p = "mkPath [''B''] ''graph'' ''localPosition''"
  let ?t = "Target (createAnimTarget 0 (SetLocalPosition (Some 1)) ''vector'' 3
              (GNode nodeABC_B) ''localPosition'' None)"
  have h1: "component ?p = ''graph''"
    by (simp add: mkPath_def)
  have h2: "cachedTarget ?s (encodedPath ?p) = None"
    by code_simp
  have h3: "fst (resolve ?s ?p) = Inr (Some ?t)"
    by code_simp
  have h4: "fst (findNode ?s ?p) = Some (GNode nodeABC_B)"
    by code_simp
  have h5: "nodes ?s (lastSegment (entityPath ?p)) = Some nodeABC_B"
    by code_simp
  have h6: "path nodeABC_B \<notin> set objectPrototypeNames"
    by code_simp
  have h7: "nodeCounts ?s (path nodeABC_B) \<noteq> Some NaN"
    by (simp add: DefaultAnimBinder_def)
  have before: "activeNodes ?s = [] \<and> countValue (plainGet (nodeCounts ?s) ''B'') = Num 0"
    by code_simp
  show ?thesis
    using resolve_unresolve_restores [OF h1 h2 h3 h4 h5 h6 h7] before
    by simp
qed

subsection \<open>The active node list after an unresolve\<close>

text \<open>
  Whatever the node, the removal step of \<open>unresolve\<close> drops the last element of the
  active node list: the search for \<^verbatim>\<open>node.node\<close> gives -1.
\<close>

lemma removeActive_pops_last:
  "removeActive s node = s\<lparr>activeNodes := butlast (activeNodes s)\<rparr>"
  by (simp add: removeActive_def indexOf_def nodeProperty_def arraySet_def pop_def Let_def)

text \<open>
  C2 does not hold of the code. In the graph R -> [X, Y], after \<open>resolve\<close> of X,
  \<open>resolve\<close> of Y and \<open>unresolve\<close> of X, the count of X is 0 and the count of Y is 1,
  and yet the active node list holds X and not Y, and \<open>update\<close> marks X and not Y:
  \<^verbatim>\<open>activeNodes.indexOf(node.node)\<close> finds nothing, and the last element is popped.
\<close>

theorem swap_remove_pops_last:
  "resultTid (fst (resolve (DefaultAnimBinder True pairGraph)
      (mkPath [''X''] ''graph'' ''localPosition''))) = Some 0 \<and>
   resultTid (fst (resolve afterResolveX
      (mkPath [''Y''] ''graph'' ''localPosition''))) = Some 1 \<and>
   activeNodes afterResolveXY = [GNode nodeX, GNode nodeY] \<and>
   \<not> isl afterUnresolveX \<and>
   activeNodes (projr afterUnresolveX) = [GNode nodeX] \<and>
   nodeCounts (projr afterUnresolveX) (path nodeX) = Some (Num 0) \<and>
   nodeCounts (projr afterUnresolveX) (path nodeY) = Some (Num 1) \<and>
   update (projr afterUnresolveX) () = ([nodeX], None)"
  by code_simp

subsection \<open>The fallback diagnostics\<close>

lemma usesFallback_cong:
  "mask_field s' = mask_field s \<Longrightarrow> graph s' = graph s \<Longrightarrow> usesFallback s' k p = usesFallback s k p"
  by (simp add: usesFallback_def isPathActive_cong [of s' s])

lemma usesFallback_key: "usesFallback s k p \<Longrightarrow> k \<notin> set objectPrototypeNames"
  using encode_not_member by (auto simp: usesFallback_def fallbackKey_def)

lemma findNode_fallback_step:
  "debugBuild s \<Longrightarrow> usesFallback s k p \<Longrightarrow> snd (findNode s p) = noteFallback s k"
  by (simp add: findNode_def usesFallback_def)

lemma noteFallback_visited:
  "k \<notin> set objectPrototypeNames \<Longrightarrow>
   visitedFallbackGraphPaths (noteFallback s k) k =
     Some (case visitedFallbackGraphPaths s k of None \<Rightarrow> 0 | Some c \<Rightarrow> c + 1)"
  by (simp add: noteFallback_def Let_def plainGet_plain plainSet_plain split: option.splits)

lemma noteFallback_warnings:
  "k \<notin> set objectPrototypeNames \<Longrightarrow>
   warnings (noteFallback s k) =
     warnings s @ (if visitedFallbackGraphPaths s k = Some 1
                   then [warningText k (path (graph s))] else [])"
  by (simp add: noteFallback_def Let_def plainGet_plain plainSet_plain split: option.splits)

lemma step_keeps:
  assumes "debugBuild s" and "usesFallback s k p"
  shows "debugBuild (snd (findNode s p))"
    and "usesFallback (snd (findNode s p)) k q = usesFallback s k q"
    and "graph (snd (findNode s p)) = graph s"
  using assms
  by (simp_all add: findNode_fallback_step noteFallback_frame
      usesFallback_cong [of "noteFallback s k" s])

lemma warnings_from_two:
  "debugBuild s \<Longrightarrow> visitedFallbackGraphPaths s k = Some c \<Longrightarrow> 2 \<le> c \<Longrightarrow>
   list_all (usesFallback s k) ps \<Longrightarrow> warnings (findNodes s ps) = warnings s"
proof (induction ps arbitrary: s c)
  case Nil
  then show ?case by simp
next
  case (Cons p ps)
  let ?s' = "snd (findNode s p)"
  have u: "usesFallback s k p" using Cons.prems(4) by simp
  note key = usesFallback_key [OF u]
  have st: "?s' = noteFallback s k"
    using Cons.prems(1) u by (rule findNode_fallback_step)
  have v: "visitedFallbackGraphPaths ?s' k = Some (c + 1)"
    by (simp add: st noteFallback_visited [OF key] Cons.prems(2))
  have w: "warnings ?s' = warnings s"
    using Cons.prems(2,3) by (simp add: st noteFallback_warnings [OF key])
  have rest: "list_all (usesFallback ?s' k) ps"
    using Cons.prems(4) step_keeps(2) [OF Cons.prems(1) u] by (simp add: list_all_iff)
  have "warnings (findNodes ?s' ps) = warnings ?s'"
    using step_keeps(1) [OF Cons.prems(1) u] v _ rest
    by (rule Cons.IH) (use Cons.prems(3) in simp)
  then show ?case by (simp add: w)
qed

lemma warnings_from_one:
  assumes "debugBuild s" and "visitedFallbackGraphPaths s k = Some 1"
    and "list_all (usesFallback s k) ps"
  shows "warnings (findNodes s ps) =
         warnings s @ (if 1 \<le> length ps then [warningText k (path (graph s))] else [])"
proof (cases ps)
  case Nil
  then show ?thesis by simp
next
  case (Cons p qs)
  let ?s' = "snd (findNode s p)"
  have u: "usesFallback s k p" using assms(3) Cons by simp
  note key = usesFallback_key [OF u]
  have st: "?s' = noteFallback s k"
    using assms(1) u by (rule findNode_fallback_step)
  have v: "visitedFallbackGraphPaths ?s' k = Some 2"
    by (simp add: st noteFallback_visited [OF key] assms(2))
  have w: "warnings ?s' = warnings s @ [warningText k (path (graph s))]"
    using assms(2) by (simp add: st noteFallback_warnings [OF key])
  have rest: "list_all (usesFallback ?s' k) qs"
    using assms(3) Cons step_keeps(2) [OF assms(1) u] by (simp add: list_all_iff)
  have "warnings (findNodes ?s' qs) = warnings ?s'"
    using step_keeps(1) [OF assms(1) u] v _ rest
    by (rule warnings_from_two) simp
  then show ?thesis by (simp add: Cons w)
qed

lemma warnings_from_zero:
  assumes "debugBuild s" and "visitedFallbackGraphPaths s k = Some 0"
    and "list_all (usesFallback s k) ps"
  shows "warnings (findNodes s ps) =
         warnings s @ (if 2 \<le> length ps then [warningText k (path (graph s))] else [])"
proof (cases ps)
  case Nil
  then show ?thesis by simp
next
  case (Cons p qs)
  let ?s' = "snd (findNode s p)"
  have u: "usesFallback s k p" using assms(3) Cons by simp
  note key = usesFallback_key [OF u]
  have st: "?s' = noteFallback s k"
    using assms(1) u by (rule findNode_fallback_step)
  have v: "visitedFallbackGraphPaths ?s' k = Some 1"
    by (simp add: st noteFallback_visited [OF key] assms(2))
  have w: "warnings ?s' = warnings s"
    using assms(2) by (simp add: st noteFallback_warnings [OF key])
  have rest: "list_all (usesFallback ?s' k) qs"
    using assms(3) Cons step_keeps(2) [OF assms(1) u] by (simp add: list_all_iff)
  have "warnings (findNodes ?s' qs) =
        warnings ?s' @ (if 1 \<le> length qs then [warningText k (path (graph ?s'))] else [])"
    using step_keeps(1) [OF assms(1) u] v rest
    by (rule warnings_from_one)
  then show ?thesis by (simp add: Cons w step_keeps(3) [OF assms(1) u])
qed

text \<open>
  C6, as the claim states it, fails: three paths that fall back to the same canonical form
  give one warning, not two, and two of them give none.
\<close>

theorem fallback_warning_counterexample:
  "list_all (usesFallback (DefaultAnimBinder True graphABC) ''C/graph/localPosition'')
     [mkPath [''X'', ''C''] ''graph'' ''localPosition'',
      mkPath [''Y'', ''C''] ''graph'' ''localPosition'',
      mkPath [''Z'', ''C''] ''graph'' ''localPosition''] \<and>
   length (warnings (findNodes (DefaultAnimBinder True graphABC)
     [mkPath [''X'', ''C''] ''graph'' ''localPosition'',
      mkPath [''Y'', ''C''] ''graph'' ''localPosition'',
      mkPath [''Z'', ''C''] ''graph'' ''localPosition''])) = 1 \<and>
   warnings (findNodes (DefaultAnimBinder True graphABC)
     [mkPath [''X'', ''C''] ''graph'' ''localPosition'',
      mkPath [''Y'', ''C''] ''graph'' ''localPosition'']) = []"
  by code_simp

text \<open>
  C6, amended. In a diagnostics-enabled build, across successive \<open>findNode\<close> calls that
  use the fallback with one canonical fallback form not used before, the first and the
  second use emit no warning, the third emits one, and no later use emits any: the calls
  add one warning when there are three or more of them, and none otherwise.
\<close>

theorem fallback_warning_third_use_only:
  assumes "debugBuild s" and "visitedFallbackGraphPaths s k = None"
    and "list_all (usesFallback s k) ps"
  shows "warnings (findNodes s ps) =
         warnings s @ (if 3 \<le> length ps then [warningText k (path (graph s))] else [])"
proof (cases ps)
  case Nil
  then show ?thesis by simp
next
  case (Cons p qs)
  let ?s' = "snd (findNode s p)"
  have u: "usesFallback s k p" using assms(3) Cons by simp
  note key = usesFallback_key [OF u]
  have st: "?s' = noteFallback s k"
    using assms(1) u by (rule findNode_fallback_step)
  have v: "visitedFallbackGraphPaths ?s' k = Some 0"
    by (simp add: st noteFallback_visited [OF key] assms(2))
  have w: "warnings ?s' = warnings s"
    using assms(2) by (simp add: st noteFallback_warnings [OF key])
  have rest: "list_all (usesFallback ?s' k) qs"
    using assms(3) Cons step_keeps(2) [OF assms(1) u] by (simp add: list_all_iff)
  have "warnings (findNodes ?s' qs) =
        warnings ?s' @ (if 2 \<le> length qs then [warningText k (path (graph ?s'))] else [])"
    using step_keeps(1) [OF assms(1) u] v rest
    by (rule warnings_from_zero)
  then show ?thesis by (simp add: Cons w step_keeps(3) [OF assms(1) u])
qed

theorem fallback_warning_third_use_only_witness:
  "warnings (findNodes (DefaultAnimBinder True graphABC)
     [mkPath [''X'', ''C''] ''graph'' ''localPosition'',
      mkPath [''Y'', ''C''] ''graph'' ''localPosition'',
      mkPath [''Z'', ''C''] ''graph'' ''localPosition'']) =
   [warningText ''C/graph/localPosition'' []]"
proof -
  let ?s = "DefaultAnimBinder True graphABC"
  let ?ps = "[mkPath [''X'', ''C''] ''graph'' ''localPosition'',
      mkPath [''Y'', ''C''] ''graph'' ''localPosition'',
      mkPath [''Z'', ''C''] ''graph'' ''localPosition'']"
  have h1: "debugBuild ?s"
    by (simp add: DefaultAnimBinder_def)
  have h2: "visitedFallbackGraphPaths ?s ''C/graph/localPosition'' = None"
    by (simp add: DefaultAnimBinder_def)
  have h3: "list_all (usesFallback ?s ''C/graph/localPosition'') ?ps"
    by code_simp
  have before: "warnings ?s = [] \<and> path (graph ?s) = []"
    by (simp add: DefaultAnimBinder_def graphABC_def)
  show ?thesis
    using fallback_warning_third_use_only [OF h1 h2 h3] before
    by simp
qed

subsection \<open>The weights handler\<close>

lemma setWeight_apply:
  "setWeight mo i x st (a, b) = (if a = morphId mo \<and> b = i then Some x else st (a, b))"
  by (simp add: setWeight_def)

lemma setWeightAll_apply:
  "setWeightAll ms i x st (a, b) =
     (if b = i \<and> a \<in> morphId ` set ms then Some x else st (a, b))"
proof (induction ms arbitrary: st)
  case Nil
  then show ?case by (simp add: setWeightAll_def)
next
  case (Cons m ms)
  have step: "setWeightAll (m # ms) i x st = setWeightAll ms i x (setWeight m i x st)"
    by (simp add: setWeightAll_def)
  show ?case
    unfolding step Cons.IH setWeight_apply by auto
qed

lemma weights_loop_apply:
  "fold (\<lambda>i. setWeightAll ms i (val ! i)) [0 ..< n] st (a, b) =
     (if b < n \<and> a \<in> morphId ` set ms then Some (val ! b) else st (a, b))"
proof (induction n)
  case 0
  then show ?case by simp
next
  case (Suc n)
  have "fold (\<lambda>i. setWeightAll ms i (val ! i)) [0 ..< Suc n] st (a, b) =
        setWeightAll ms n (val ! n) (fold (\<lambda>i. setWeightAll ms i (val ! i)) [0 ..< n] st) (a, b)"
    by simp
  then show ?case
    unfolding setWeightAll_apply Suc.IH by (auto simp: less_Suc_eq)
qed

lemma weightsFunc_apply:
  "weightsFunc ms val st (a, b) =
     (if b < length val \<and> a \<in> morphId ` set ms then Some (val ! b) else st (a, b))"
  unfolding weightsFunc_def by (rule weights_loop_apply)

lemma weightsHandler_eq:
  "weightsHandler oid node =
     (case morphInstancesAt node of
        [] \<Rightarrow> None
      | m0 # rest \<Rightarrow>
          Some (createAnimTarget oid (SetWeights (m0 # rest)) ''vector''
                  (targetsLength m0) node ''weights'' None))"
  by (simp add: weightsHandler_def morphInstancesAt_def split: option.splits)

text \<open>
  C9, as the claim states it, fails: a node with one morph instance whose morph has three
  targets gets a target of three components, not of one.
\<close>

theorem weights_count_counterexample:
  "length (morphInstancesAt (GNode morphNode)) = 1 \<and>
   map_option valueCount (weightsHandler 0 (GNode morphNode)) = Some 3 \<and>
   map_option valueCount
     (resultTarget (fst (resolve (DefaultAnimBinder True morphGraph)
                           (mkPath [''M''] ''graph'' ''weights'')))) = Some 3"
  by code_simp

text \<open>
  C9, amended. Binding "weights" on a node for which the handler collects no morph instance
  returns absent. On a node with K morph instances (K >= 1) it yields a target whose
  component count is the number of morph targets of the first of them, and invoking the
  target with a vector sets, on each of the K morph instances, the weight at every index of
  the vector to the component at that index, and no other weight.
\<close>

theorem weights_binding:
  "(morphInstancesAt node = [] \<longrightarrow> weightsHandler oid node = None) \<and>
   (morphInstancesAt node = m0 # rest \<longrightarrow>
      (\<exists>t. weightsHandler oid node = Some t \<and>
           valueCount t = targetsLength m0 \<and>
           func t = SetWeights (m0 # rest)) \<and>
      (\<forall>mo \<in> set (m0 # rest). \<forall>i < length val.
           weightsFunc (m0 # rest) val store (morphId mo, i) = Some (val ! i)) \<and>
      (\<forall>a i. a \<notin> morphId ` set (m0 # rest) \<or> length val \<le> i \<longrightarrow>
           weightsFunc (m0 # rest) val store (a, i) = store (a, i)))"
proof -
  have none: "morphInstancesAt node = [] \<longrightarrow> weightsHandler oid node = None"
    by (simp add: weightsHandler_eq)
  have some: "morphInstancesAt node = m0 # rest \<longrightarrow>
      (\<exists>t. weightsHandler oid node = Some t \<and>
           valueCount t = targetsLength m0 \<and>
           func t = SetWeights (m0 # rest))"
    by (simp add: weightsHandler_eq createAnimTarget_def)
  have sets: "\<forall>mo \<in> set (m0 # rest). \<forall>i < length val.
           weightsFunc (m0 # rest) val store (morphId mo, i) = Some (val ! i)"
    unfolding weightsFunc_apply by auto
  have keeps: "\<forall>a i. a \<notin> morphId ` set (m0 # rest) \<or> length val \<le> i \<longrightarrow>
           weightsFunc (m0 # rest) val store (a, i) = store (a, i)"
    unfolding weightsFunc_apply by auto
  show ?thesis using none some sets keeps by blast
qed

theorem weights_binding_witness:
  "weightsHandler 0 (GNode nodeX) = None \<and>
   map_option valueCount (weightsHandler 0 (GNode morphNode)) = Some 3 \<and>
   weightsFunc [\<lparr>morphId = 7, targetsLength = 3\<rparr>] [10, 20, 30 :: int] Map.empty (7, 1)
     = Some 20 \<and>
   weightsFunc [\<lparr>morphId = 7, targetsLength = 3\<rparr>] [10, 20, 30 :: int] Map.empty (8, 1)
     = None"
proof -
  let ?m = "\<lparr>morphId = 7, targetsLength = 3\<rparr>"
  have n: "morphInstancesAt (GNode nodeX) = []"
    by code_simp
  have m: "morphInstancesAt (GNode morphNode) = [?m]"
    by code_simp
  have a: "weightsHandler 0 (GNode nodeX) = None"
    using weights_binding [of "GNode nodeX" 0 ?m "[]" "[10, 20, 30 :: int]" Map.empty] n by simp
  note th = weights_binding [of "GNode morphNode" 0 ?m "[]" "[10, 20, 30 :: int]" Map.empty]
  have c: "map_option valueCount (weightsHandler 0 (GNode morphNode)) = Some 3"
    using th m by auto
  have sets: "\<forall>mo \<in> set [?m]. \<forall>i < length [10, 20, 30 :: int].
      weightsFunc [?m] [10, 20, 30 :: int] Map.empty (morphId mo, i)
        = Some ([10, 20, 30 :: int] ! i)"
    using th m by blast
  have keeps: "\<forall>a i. a \<notin> morphId ` set [?m] \<or> length [10, 20, 30 :: int] \<le> i \<longrightarrow>
      weightsFunc [?m] [10, 20, 30 :: int] Map.empty (a, i) = Map.empty (a, i)"
    using th m by blast
  have d: "weightsFunc [?m] [10, 20, 30 :: int] Map.empty (7, 1) = Some 20"
    using sets [rule_format, of ?m 1] by simp
  have e: "weightsFunc [?m] [10, 20, 30 :: int] Map.empty (8, 1) = None"
    using keeps [rule_format, of 8 1] by simp
  show ?thesis using a c d e by simp
qed

end
